theory Spec2Isabelle
  imports Main
begin

section \<open>Values and errors\<close>

text \<open>
  A decoded JSON document, as \<^verbatim>\<open>resp.json()\<close> returns it: a dict, a list, a string,
  a number, a boolean or \<^verbatim>\<open>None\<close>. Numbers are kept as integers.
\<close>

datatype json =
    JNull
  | JBool bool
  | JNum int
  | JStr string
  | JArr "json list"
  | JObj "(string \<times> json) list"

text \<open>
  The argument of a \<^verbatim>\<open>ReplicateError\<close>. The source builds three of them: the decoded
  \<^verbatim>\<open>detail\<close> value, the f-string \<^verbatim>\<open>f"HTTP error: {resp.status_code, resp.reason}"\<close>
  (kept as its two arguments) and the fixed text about the missing API token.
\<close>

datatype message =
    Detail json
  | HTTP_error int string
  | No_API_token

datatype error =
    ReplicateError message
  | ValueError string
  | TypeError
  | KeyError string
  | IndexError
  | JSONDecodeError
  | AttributeError string
  | RetryError

section \<open>collection.py: Collection\<close>

record 'm Collection =
  slug :: string
  name :: string
  description :: string
  models :: "'m list option"

text \<open>
  \<^verbatim>\<open>id\<close> is a property wrapped in \<^verbatim>\<open>@deprecated("Use `slug` instead of `id`")\<close>: reading
  it emits that deprecation warning and returns the slug. The result is the value
  together with the warnings emitted.
\<close>

definition id_property :: "'m Collection \<Rightarrow> string \<times> string list" where
  "id_property self = (slug self, [''Use `slug` instead of `id`''])"

text \<open>
  Python's \<^verbatim>\<open>xs[i]\<close> for an integer index: a negative index counts from the end, and an
  index outside the list raises \<^verbatim>\<open>IndexError\<close>.
\<close>

definition list_getitem :: "'a list \<Rightarrow> int \<Rightarrow> error + 'a" where
  "list_getitem xs i =
     (let n = int (length xs);
          j = (if i < 0 then i + n else i)
      in if 0 \<le> j \<and> j < n then Inr (xs ! nat j) else Inl IndexError)"

definition getitem :: "'m Collection \<Rightarrow> int \<Rightarrow> error + 'm option" where
  "getitem self index =
     (case models self of
        Some ms \<Rightarrow>
          (case list_getitem ms index of Inl e \<Rightarrow> Inl e | Inr m \<Rightarrow> Inr (Some m))
      | None \<Rightarrow> Inr None)"

definition len :: "'m Collection \<Rightarrow> nat" where
  "len self = (case models self of Some ms \<Rightarrow> length ms | None \<Rightarrow> 0)"

section \<open>client.py: construction and token resolution\<close>

text \<open>The process environment, \<^verbatim>\<open>os.environ\<close>.\<close>

type_synonym environ = "string \<rightharpoonup> string"

definition environ_get :: "environ \<Rightarrow> string \<Rightarrow> string \<Rightarrow> string" where
  "environ_get env key dflt = (case env key of Some v \<Rightarrow> v | None \<Rightarrow> dflt)"

text \<open>
  A \<^verbatim>\<open>urllib3\<close> retry policy with the fields the constructor sets, and the history of
  the responses retried so far (their status codes), which \<^verbatim>\<open>increment\<close> extends.
\<close>

record Retry =
  total :: int
  backoff_factor :: nat
  method_whitelist :: "string list"
  status_forcelist :: "int list"
  history :: "int list"

definition read_retries :: Retry where
  "read_retries =
     \<lparr>total = 5, backoff_factor = 2, method_whitelist = [''GET''],
      status_forcelist = [429, 500, 502, 503, 504, 520, 521, 522, 523, 524, 526, 527],
      history = []\<rparr>"

definition write_retries :: Retry where
  "write_retries =
     \<lparr>total = 5, backoff_factor = 2, method_whitelist = [''POST'', ''PUT''],
      status_forcelist = [429], history = []\<rparr>"

text \<open>
  The client. \<^verbatim>\<open>poll_interval\<close> is a Python float; its type is left open.
  \<^verbatim>\<open>read_session\<close> and \<^verbatim>\<open>write_session\<close> stand for the two \<^verbatim>\<open>requests\<close> sessions,
  each known by the retry policy mounted on it, and \<^verbatim>\<open>httpx_transport\<close> for the
  \<^verbatim>\<open>AsyncHTTPTransport\<close>, known by its \<^verbatim>\<open>retries\<close> argument.
\<close>

record 'f Client =
  api_token :: "string option"
  base_url :: string
  poll_interval :: 'f
  httpx_transport :: nat
  read_session :: Retry
  write_session :: Retry

text \<open>
  \<^verbatim>\<open>Client.__init__(self, api_token=None)\<close>. The first parameter is Python's \<^verbatim>\<open>float\<close>
  on strings (\<^verbatim>\<open>None\<close> where it raises \<^verbatim>\<open>ValueError\<close>); the environment is the one at
  construction time.
\<close>

definition init :: "(string \<Rightarrow> 'f option) \<Rightarrow> environ \<Rightarrow> string option \<Rightarrow> error + 'f Client" where
  "init float env api_token_arg =
     (case float (environ_get env ''REPLICATE_POLL_INTERVAL'' ''0.5'') of
        None \<Rightarrow> Inl (ValueError ''could not convert string to float'')
      | Some p \<Rightarrow>
          (let max_retries = 5 in
           Inr \<lparr>api_token = api_token_arg,
                base_url = environ_get env ''REPLICATE_API_BASE_URL'' ''https://api.replicate.com'',
                poll_interval = p,
                httpx_transport = max_retries,
                read_session = read_retries,
                write_session = write_retries\<rparr>))"

text \<open>
  \<^verbatim>\<open>Client._api_token\<close>; the environment is the one at the time of the call.
  \<^verbatim>\<open>not token\<close> holds of \<^verbatim>\<open>None\<close> and of the empty string.
\<close>

definition api_token_call :: "'f Client \<Rightarrow> environ \<Rightarrow> error + string" where
  "api_token_call self env =
     (let token = (case api_token self of
                     None \<Rightarrow> env ''REPLICATE_API_TOKEN''
                   | Some t \<Rightarrow> Some t)
      in case token of
           None \<Rightarrow> Inl (ReplicateError No_API_token)
         | Some t \<Rightarrow> if t = [] then Inl (ReplicateError No_API_token) else Inr t)"

text \<open>
  \<^verbatim>\<open>Client._headers\<close>. The first parameter is \<^verbatim>\<open>__version__\<close>, whose module is not part
  of the sources at hand.
\<close>

definition headers :: "string \<Rightarrow> 'f Client \<Rightarrow> environ \<Rightarrow> error + (string \<rightharpoonup> string)" where
  "headers version self env =
     (case api_token_call self env of
        Inl e \<Rightarrow> Inl e
      | Inr t \<Rightarrow>
          Inr [''Authorization'' \<mapsto> ''Token '' @ t,
               ''User-Agent'' \<mapsto> ''replicate-python@'' @ version])"

section \<open>The HTTP exchange\<close>

text \<open>
  A response as the client reads it: the status code, the reason phrase, what
  \<^verbatim>\<open>resp.json()\<close> decodes from the body (\<^verbatim>\<open>None\<close> where it raises
  \<^verbatim>\<open>JSONDecodeError\<close>), and the \<^verbatim>\<open>Retry-After\<close> header in seconds when the response
  carries one.
\<close>

record Response =
  status_code :: int
  reason :: string
  body :: "json option"
  retry_after :: "nat option"

text \<open>
  The keyword arguments of a request that bear on redirects and headers:
  \<^verbatim>\<open>allow_redirects\<close> (the keyword of \<^verbatim>\<open>requests\<close>), \<^verbatim>\<open>follow_redirects\<close> (the keyword of
  \<^verbatim>\<open>httpx\<close>) and \<^verbatim>\<open>headers\<close>, each absent or given. Both paths hand every other keyword
  (\<^verbatim>\<open>params\<close>, \<^verbatim>\<open>json\<close>, ...) to the HTTP library as the caller gave it.
\<close>

record Kwargs =
  kw_allow_redirects :: "bool option"
  kw_follow_redirects :: "bool option"
  kw_headers :: "(string \<rightharpoonup> string) option"

text \<open>
  What goes on the wire: method, URL, headers, and whether the HTTP library follows
  redirects for it. The network answers the \<open>n\<close>-th transmission of a request with a
  response; every transmission is answered (connection failures are not modelled), and
  the response is the one the library ends with after any redirects it follows.
\<close>

record Request =
  rq_method :: string
  rq_url :: string
  rq_headers :: "string \<rightharpoonup> string"
  rq_follow_redirects :: bool

type_synonym network = "Request \<Rightarrow> nat \<Rightarrow> Response"

text \<open>
  The outcome of a call: the error raised or the response returned, the transmissions
  made, and the seconds slept between them.
\<close>

record Outcome =
  result :: "error + Response"
  wire :: "Request list"
  slept :: "nat list"

section \<open>urllib3 1.x: Retry, as the blocking sessions use it\<close>

text \<open>
  The constructor passes \<^verbatim>\<open>method_whitelist\<close>, the keyword of urllib3 1.x, so the
  retry rules are the ones of that series: \<^verbatim>\<open>Retry.is_retry\<close>, \<^verbatim>\<open>Retry.increment\<close>,
  \<^verbatim>\<open>Retry.is_exhausted\<close>, \<^verbatim>\<open>Retry.get_backoff_time\<close>, \<^verbatim>\<open>Retry.sleep\<close> and the retry
  branch of \<^verbatim>\<open>HTTPConnectionPool.urlopen\<close>, with every field the constructor leaves
  alone at its default (\<^verbatim>\<open>respect_retry_after_header=True\<close>, \<^verbatim>\<open>raise_on_status=True\<close>,
  the other counters \<^verbatim>\<open>None\<close>).
\<close>

definition upper :: "string \<Rightarrow> string" where
  "upper s =
     map (\<lambda>c. let n = (of_char c :: nat)
              in if 97 \<le> n \<and> n \<le> 122 then char_of (n - 32) else c) s"

definition is_method_retryable :: "Retry \<Rightarrow> string \<Rightarrow> bool" where
  "is_method_retryable self method =
     (if method_whitelist self \<noteq> [] \<and> upper method \<notin> set (method_whitelist self)
      then False else True)"

definition RETRY_AFTER_STATUS_CODES :: "int list" where
  "RETRY_AFTER_STATUS_CODES = [413, 429, 503]"

definition is_retry :: "Retry \<Rightarrow> string \<Rightarrow> int \<Rightarrow> bool \<Rightarrow> bool" where
  "is_retry self method status has_retry_after =
     (if \<not> is_method_retryable self method then False
      else if status_forcelist self \<noteq> [] \<and> status \<in> set (status_forcelist self) then True
      else total self \<noteq> 0 \<and> has_retry_after \<and> status \<in> set RETRY_AFTER_STATUS_CODES)"

definition increment :: "Retry \<Rightarrow> int \<Rightarrow> Retry" where
  "increment self status =
     self\<lparr>total := total self - 1, history := history self @ [status]\<rparr>"

text \<open>Only \<^verbatim>\<open>total\<close> is set; \<^verbatim>\<open>filter(None, ...)\<close> drops a counter that is 0.\<close>

definition is_exhausted :: "Retry \<Rightarrow> bool" where
  "is_exhausted self =
     (let retry_counts = filter (\<lambda>c. c \<noteq> 0) [total self]
      in if retry_counts = [] then False else Min (set retry_counts) < 0)"

definition DEFAULT_BACKOFF_MAX :: nat where
  "DEFAULT_BACKOFF_MAX = 120"

definition get_backoff_time :: "Retry \<Rightarrow> nat" where
  "get_backoff_time self =
     (let consecutive_errors_len = length (history self)
      in if consecutive_errors_len \<le> 1 then 0
         else min DEFAULT_BACKOFF_MAX
                  (backoff_factor self * 2 ^ (consecutive_errors_len - 1)))"

text \<open>The seconds \<^verbatim>\<open>Retry.sleep\<close> sleeps: the \<^verbatim>\<open>Retry-After\<close> value if non-zero, else the backoff.\<close>

definition sleep :: "Retry \<Rightarrow> Response \<Rightarrow> nat" where
  "sleep self response =
     (case retry_after response of
        Some s \<Rightarrow> if s \<noteq> 0 then s else get_backoff_time self
      | None \<Rightarrow> get_backoff_time self)"

text \<open>
  The loop of \<^verbatim>\<open>urlopen\<close> under \<^verbatim>\<open>HTTPAdapter.send\<close>: \<open>respond n\<close> is the answer to
  transmission \<open>n\<close>. The result is the response, or \<^verbatim>\<open>RetryError\<close> (what \<^verbatim>\<open>requests\<close>
  raises for the exhausted policy), with the number of transmissions made and the
  sleeps between them.
\<close>

function urlopen ::
  "Retry \<Rightarrow> string \<Rightarrow> (nat \<Rightarrow> Response) \<Rightarrow> nat \<Rightarrow> nat list \<Rightarrow> (error + Response) \<times> nat \<times> nat list"
where
  "urlopen retries method respond n sl =
     (let response = respond n in
      if is_retry retries method (status_code response) (retry_after response \<noteq> None) then
        (let retries' = increment retries (status_code response) in
         if is_exhausted retries' then (Inl RetryError, Suc n, sl)
         else urlopen retries' method respond (Suc n) (sl @ [sleep retries' response]))
      else (Inr response, Suc n, sl))"
  by pat_completeness auto
termination
  by (relation "measure (\<lambda>(r, m, f, n, sl). nat (total r))")
     (auto simp: increment_def is_exhausted_def split: if_splits)

declare urlopen.simps [simp del]

section \<open>client.py: the two request paths\<close>

definition setdefault_allow_redirects :: "bool \<Rightarrow> Kwargs \<Rightarrow> Kwargs" where
  "setdefault_allow_redirects b kwargs =
     (case kw_allow_redirects kwargs of
        None \<Rightarrow> kwargs\<lparr>kw_allow_redirects := Some b\<rparr>
      | Some _ \<Rightarrow> kwargs)"

definition setdefault_headers :: "Kwargs \<Rightarrow> Kwargs" where
  "setdefault_headers kwargs =
     (case kw_headers kwargs of
        None \<Rightarrow> kwargs\<lparr>kw_headers := Some Map.empty\<rparr>
      | Some _ \<Rightarrow> kwargs)"

text \<open>
  The six lines that open both \<^verbatim>\<open>_request\<close> and \<^verbatim>\<open>_request_async\<close>: the defaults for
  \<^verbatim>\<open>allow_redirects\<close>, then the client's headers written over the caller's.
\<close>

definition prepare ::
  "string \<Rightarrow> environ \<Rightarrow> 'f Client \<Rightarrow> string \<Rightarrow> Kwargs \<Rightarrow> error + Kwargs" where
  "prepare version env self method kwargs =
     (let kw1 = (if method \<in> set [''GET'', ''OPTIONS'']
                 then setdefault_allow_redirects True kwargs else kwargs);
          kw2 = (if method \<in> set [''HEAD'']
                 then setdefault_allow_redirects False kw1 else kw1);
          kw3 = setdefault_headers kw2
      in case headers version self env of
           Inl e \<Rightarrow> Inl e
         | Inr h \<Rightarrow>
             Inr (kw3\<lparr>kw_headers :=
                        Some ((case kw_headers kw3 of Some m \<Rightarrow> m | None \<Rightarrow> Map.empty) ++ h)\<rparr>))"

text \<open>\<^verbatim>\<open>value[key]\<close> for a string key; a dict decoded from JSON keeps the last duplicate.\<close>

fun subscript :: "json \<Rightarrow> string \<Rightarrow> error + json" where
  "subscript (JObj kvs) key =
     (case map_of (rev kvs) key of Some v \<Rightarrow> Inr v | None \<Rightarrow> Inl (KeyError key))"
| "subscript _ key = Inl TypeError"

definition json_method :: "Response \<Rightarrow> error + json" where
  "json_method resp = (case body resp of None \<Rightarrow> Inl JSONDecodeError | Some v \<Rightarrow> Inr v)"

text \<open>
  The tail of \<^verbatim>\<open>_request\<close>, from \<^verbatim>\<open>if 400 <= resp.status_code < 600\<close>: the
  \<^verbatim>\<open>ReplicateError\<close> raised inside \<^verbatim>\<open>try\<close> passes through the handler, which catches
  \<^verbatim>\<open>JSONDecodeError\<close> and \<^verbatim>\<open>KeyError\<close> only.
\<close>

definition check_status :: "Response \<Rightarrow> error + Response" where
  "check_status resp =
     (if 400 \<le> status_code resp \<and> status_code resp < 600 then
        (case (case json_method resp of
                 Inl e \<Rightarrow> Inl e
               | Inr v \<Rightarrow> subscript v ''detail'') of
           Inr d \<Rightarrow> Inl (ReplicateError (Detail d))
         | Inl JSONDecodeError \<Rightarrow>
             Inl (ReplicateError (HTTP_error (status_code resp) (reason resp)))
         | Inl (KeyError k) \<Rightarrow>
             Inl (ReplicateError (HTTP_error (status_code resp) (reason resp)))
         | Inl e \<Rightarrow> Inl e)
      else Inr resp)"

text \<open>
  The same tail in \<^verbatim>\<open>_request_async\<close>, where \<^verbatim>\<open>resp\<close> is an \<^verbatim>\<open>httpx.Response\<close>: that
  class names the phrase \<^verbatim>\<open>reason_phrase\<close> and has no attribute \<^verbatim>\<open>reason\<close>, so evaluating
  the f-string raises \<^verbatim>\<open>AttributeError\<close>.
\<close>

definition check_status_async :: "Response \<Rightarrow> error + Response" where
  "check_status_async resp =
     (if 400 \<le> status_code resp \<and> status_code resp < 600 then
        (case (case json_method resp of
                 Inl e \<Rightarrow> Inl e
               | Inr v \<Rightarrow> subscript v ''detail'') of
           Inr d \<Rightarrow> Inl (ReplicateError (Detail d))
         | Inl JSONDecodeError \<Rightarrow> Inl (AttributeError ''reason'')
         | Inl (KeyError k) \<Rightarrow> Inl (AttributeError ''reason'')
         | Inl e \<Rightarrow> Inl e)
      else Inr resp)"

text \<open>
  What \<^verbatim>\<open>session.request(method, url, **kwargs)\<close> sends: \<^verbatim>\<open>requests\<close> follows redirects
  unless \<^verbatim>\<open>allow_redirects\<close> is passed as false.
\<close>

definition session_request :: "string \<Rightarrow> string \<Rightarrow> Kwargs \<Rightarrow> Request" where
  "session_request method url kwargs =
     \<lparr>rq_method = method, rq_url = url,
      rq_headers = (case kw_headers kwargs of Some m \<Rightarrow> m | None \<Rightarrow> Map.empty),
      rq_follow_redirects = (case kw_allow_redirects kwargs of Some b \<Rightarrow> b | None \<Rightarrow> True)\<rparr>"

text \<open>
  \<^verbatim>\<open>Client._request\<close>, the blocking path. \<^verbatim>\<open>Session.request\<close> has no parameter
  \<^verbatim>\<open>follow_redirects\<close>, so a call that passes this keyword on raises \<^verbatim>\<open>TypeError\<close> before
  anything is sent.
\<close>

definition request ::
  "string \<Rightarrow> network \<Rightarrow> environ \<Rightarrow> 'f Client \<Rightarrow> string \<Rightarrow> string \<Rightarrow> Kwargs \<Rightarrow> Outcome" where
  "request version net env self method path kwargs =
     (case prepare version env self method kwargs of
        Inl e \<Rightarrow> \<lparr>result = Inl e, wire = [], slept = []\<rparr>
      | Inr kw \<Rightarrow>
          (let session = (if method \<in> set [''POST'', ''PUT'', ''DELETE'', ''PATCH'']
                          then write_session self else read_session self);
               rq = session_request method (base_url self @ path) kw
           in if kw_follow_redirects kw \<noteq> None
              then \<lparr>result = Inl TypeError, wire = [], slept = []\<rparr>
              else case urlopen session method (net rq) 0 [] of
                     (Inl e, n, sl) \<Rightarrow> \<lparr>result = Inl e, wire = replicate n rq, slept = sl\<rparr>
                   | (Inr resp, n, sl) \<Rightarrow>
                       \<lparr>result = check_status resp, wire = replicate n rq, slept = sl\<rparr>))"

text \<open>
  What \<^verbatim>\<open>client.request(method, url, **kwargs)\<close> sends for an \<^verbatim>\<open>AsyncClient\<close> built with
  \<^verbatim>\<open>follow_redirects=True\<close>: the keyword \<^verbatim>\<open>follow_redirects\<close> of the call, when given,
  overrides the client's setting.
\<close>

definition client_request :: "string \<Rightarrow> string \<Rightarrow> Kwargs \<Rightarrow> Request" where
  "client_request method url kwargs =
     \<lparr>rq_method = method, rq_url = url,
      rq_headers = (case kw_headers kwargs of Some m \<Rightarrow> m | None \<Rightarrow> Map.empty),
      rq_follow_redirects = (case kw_follow_redirects kwargs of Some b \<Rightarrow> b | None \<Rightarrow> True)\<rparr>"

text \<open>
  \<^verbatim>\<open>Client._request_async\<close>, the non-blocking path: \<^verbatim>\<open>allow_redirects\<close> is popped from the
  keyword arguments and the rest is passed on. The transport's \<^verbatim>\<open>retries\<close> count only
  failures to connect, so an answered request is sent once.
\<close>

definition request_async ::
  "string \<Rightarrow> network \<Rightarrow> environ \<Rightarrow> 'f Client \<Rightarrow> string \<Rightarrow> string \<Rightarrow> Kwargs \<Rightarrow> Outcome" where
  "request_async version net env self method path kwargs =
     (case prepare version env self method kwargs of
        Inl e \<Rightarrow> \<lparr>result = Inl e, wire = [], slept = []\<rparr>
      | Inr kw \<Rightarrow>
          (let kw' = kw\<lparr>kw_allow_redirects := None\<rparr>;
               rq = client_request method (base_url self @ path) kw';
               resp = net rq 0
           in \<lparr>result = check_status_async resp, wire = [rq], slept = []\<rparr>))"

section \<open>collection.py: Collections.list\<close>

text \<open>
  The cursor argument: the default \<^verbatim>\<open>...\<close> (no cursor given), \<^verbatim>\<open>None\<close>, or a string.
\<close>

datatype cursor = Ellipsis | None_cursor | Cursor string

definition no_kwargs :: Kwargs where
  "no_kwargs = \<lparr>kw_allow_redirects = None, kw_follow_redirects = None, kw_headers = None\<rparr>"

text \<open>
  \<^verbatim>\<open>Collections.list\<close> up to the response of \<^verbatim>\<open>_request\<close>; decoding that response into
  a \<^verbatim>\<open>Page\<close> follows in the source and is not part of the model.
\<close>

definition list_op ::
  "string \<Rightarrow> network \<Rightarrow> environ \<Rightarrow> 'f Client \<Rightarrow> cursor \<Rightarrow> Outcome" where
  "list_op version net env client c =
     (if c = None_cursor
      then \<lparr>result = Inl (ValueError ''cursor cannot be None''), wire = [], slept = []\<rparr>
      else request version net env client ''GET''
             (case c of Ellipsis \<Rightarrow> ''/v1/collections'' | Cursor s \<Rightarrow> s | None_cursor \<Rightarrow> [])
             no_kwargs)"

section \<open>Fixtures\<close>

text \<open>
  A client as \<^verbatim>\<open>Client(api_token="r8_token")\<close> builds it in an empty environment (with
  floats kept as the text they are parsed from), and a server answer with a given status,
  reason phrase and decoded body.
\<close>

definition fixture_client :: "string Client" where
  "fixture_client =
     \<lparr>api_token = Some ''r8_token'', base_url = ''https://api.replicate.com'',
      poll_interval = ''0.5'', httpx_transport = 5,
      read_session = read_retries, write_session = write_retries\<rparr>"

definition answer :: "int \<Rightarrow> string \<Rightarrow> json option \<Rightarrow> Response" where
  "answer s r b = \<lparr>status_code = s, reason = r, body = b, retry_after = None\<rparr>"

text \<open>A network that gives the same answer to every transmission.\<close>

definition always :: "Response \<Rightarrow> network" where
  "always r rq n = r"

text \<open>A network whose first answer differs from all later ones.\<close>

definition first_then :: "Response \<Rightarrow> Response \<Rightarrow> network" where
  "first_then r1 r2 rq n = (if n = 0 then r1 else r2)"

section \<open>Auxiliary facts\<close>

lemma upper_simps: "upper ''GET'' = ''GET''" "upper ''HEAD'' = ''HEAD''" "upper ''OPTIONS'' = ''OPTIONS''"
  "upper ''POST'' = ''POST''" "upper ''PUT'' = ''PUT''" "upper ''PATCH'' = ''PATCH''" "upper ''DELETE'' = ''DELETE''"
  by (simp_all add: upper_def)

lemma is_exhausted_iff: "is_exhausted r = (total r < 0)"
  by (auto simp: is_exhausted_def)

lemma urlopen_stop:
  "\<not> is_retry r m (status_code (f n)) (retry_after (f n) \<noteq> None) \<Longrightarrow>
   urlopen r m f n sl = (Inr (f n), Suc n, sl)"
  by (subst urlopen.simps) simp

lemma urlopen_exhaust:
  "is_retry r m (status_code (f n)) (retry_after (f n) \<noteq> None) \<Longrightarrow> total r \<le> 0 \<Longrightarrow>
   urlopen r m f n sl = (Inl RetryError, Suc n, sl)"
  by (subst urlopen.simps) (simp add: is_exhausted_iff increment_def)

lemma urlopen_again:
  "is_retry r m (status_code (f n)) (retry_after (f n) \<noteq> None) \<Longrightarrow> 0 < total r \<Longrightarrow>
   urlopen r m f n sl =
     urlopen (increment r (status_code (f n))) m f (Suc n)
       (sl @ [sleep (increment r (status_code (f n))) (f n)])"
  by (subst urlopen.simps) (simp add: is_exhausted_iff increment_def Let_def)

lemma init_fields:
  assumes "init fl env0 tok = Inr c"
  shows "api_token c = tok"
    and "base_url c = environ_get env0 ''REPLICATE_API_BASE_URL'' ''https://api.replicate.com''"
    and "fl (environ_get env0 ''REPLICATE_POLL_INTERVAL'' ''0.5'') = Some (poll_interval c)"
    and "read_session c = read_retries"
    and "write_session c = write_retries"
  using assms by (auto simp: init_def split: option.splits)


lemma api_token_fixture: "api_token_call fixture_client env = Inr ''r8_token''"
  by (simp add: api_token_call_def fixture_client_def)


lemma is_method_retryable_increment [simp]:
  "is_method_retryable (increment r s) m = is_method_retryable r m"
  by (simp add: is_method_retryable_def increment_def)

lemma increment_fields [simp]:
  "status_forcelist (increment r s) = status_forcelist r"
  "backoff_factor (increment r s) = backoff_factor r"
  "total (increment r s) = total r - 1"
  "history (increment r s) = history r @ [s]"
  "method_whitelist (increment r s) = method_whitelist r"
  by (simp_all add: increment_def)

lemma is_retry_forced:
  "is_method_retryable r m \<Longrightarrow> s \<in> set (status_forcelist r) \<Longrightarrow> is_retry r m s b"
  by (auto simp: is_retry_def)


lemma is_retry_not_method:
  "\<not> is_method_retryable r m \<Longrightarrow> \<not> is_retry r m s b"
  by (simp add: is_retry_def)

lemma all_retried:
  assumes "is_method_retryable r m" "total r = 5" "history r = []" "backoff_factor r = 2"
    and "\<forall>n\<le>5. status_code (f n) \<in> set (status_forcelist r)"
  shows "urlopen r m f 0 [] =
           (Inl RetryError, 6,
            map (\<lambda>(i, b). case retry_after (f i) of None \<Rightarrow> b | Some s \<Rightarrow> if s = 0 then b else s)
              [(0, 0), (1, 4), (2, 8), (3, 16), (4, 32)])"
  using assms
  by (simp add: urlopen_again urlopen_exhaust is_retry_forced sleep_def get_backoff_time_def
      DEFAULT_BACKOFF_MAX_def eval_nat_numeral split: option.splits)




lemma prepare_ok:
  assumes "api_token_call c env = Inr t"
  shows "\<exists>kw'. prepare v env c m kw = Inr kw' \<and>
           kw_allow_redirects kw' =
             (case kw_allow_redirects kw of
                Some b \<Rightarrow> Some b
              | None \<Rightarrow> if m = ''GET'' \<or> m = ''OPTIONS'' then Some True
                        else if m = ''HEAD'' then Some False else None) \<and>
           kw_follow_redirects kw' = kw_follow_redirects kw \<and>
           kw_headers kw' =
             Some ((case kw_headers kw of Some h \<Rightarrow> h | None \<Rightarrow> Map.empty)
                   ++ [''Authorization'' \<mapsto> ''Token '' @ t,
                       ''User-Agent'' \<mapsto> ''replicate-python@'' @ v])"
  using assms
  by (cases kw) (auto simp: prepare_def headers_def setdefault_allow_redirects_def
      setdefault_headers_def split: option.splits)

lemma prepare_redirects:
  assumes "prepare v env c m kw = Inr kw'"
  shows "kw_follow_redirects kw' = kw_follow_redirects kw"
    and "kw_allow_redirects kw' =
             (case kw_allow_redirects kw of
                Some b \<Rightarrow> Some b
              | None \<Rightarrow> if m = ''GET'' \<or> m = ''OPTIONS'' then Some True
                        else if m = ''HEAD'' then Some False else None)"
proof -
  obtain t where "api_token_call c env = Inr t"
    using assms by (cases "api_token_call c env") (simp_all add: prepare_def headers_def Let_def)
  from prepare_ok[OF this, of v m kw] assms
  show "kw_follow_redirects kw' = kw_follow_redirects kw"
    and "kw_allow_redirects kw' =
             (case kw_allow_redirects kw of
                Some b \<Rightarrow> Some b
              | None \<Rightarrow> if m = ''GET'' \<or> m = ''OPTIONS'' then Some True
                        else if m = ''HEAD'' then Some False else None)"
    by auto
qed

lemma prepare_fail:
  "api_token_call c env = Inl e \<Longrightarrow> prepare v env c m kw = Inl e"
  by (simp add: prepare_def headers_def Let_def)

lemma request_read:
  assumes "prepare v env c m kw = Inr kw'"
    and "kw_follow_redirects kw' = None"
    and "m \<notin> {''POST'', ''PUT'', ''DELETE'', ''PATCH''}"
    and "urlopen (read_session c) m (net (session_request m (base_url c @ path) kw')) 0 [] = (r, n, sl)"
  shows "request v net env c m path kw =
           \<lparr>result = (case r of Inl e \<Rightarrow> Inl e | Inr resp \<Rightarrow> check_status resp),
            wire = replicate n (session_request m (base_url c @ path) kw'), slept = sl\<rparr>"
  using assms by (cases r) (simp_all add: request_def)


lemma retryable_read:
  "is_method_retryable read_retries ''GET''"
  "\<not> is_method_retryable read_retries ''HEAD''"
  "\<not> is_method_retryable read_retries ''OPTIONS''"
  by (simp_all add: is_method_retryable_def read_retries_def upper_simps)



section \<open>Properties of Collection\<close>

text \<open>
  C9. A collection whose \<^verbatim>\<open>models\<close> field is \<^verbatim>\<open>None\<close> has length 0, and indexing it
  with any index returns \<^verbatim>\<open>None\<close>; neither raises.
\<close>

theorem collection_without_models:
  "models c = None \<Longrightarrow> len c = 0 \<and> (\<forall>i. getitem c i = Inr None)"
  by (simp add: len_def getitem_def)

theorem collection_without_models_witness:
  "models \<lparr>slug = ''s'', name = ''n'', description = ''d'', models = (None :: nat list option)\<rparr> = None
   \<and> len \<lparr>slug = ''s'', name = ''n'', description = ''d'', models = (None :: nat list option)\<rparr> = 0
   \<and> getitem \<lparr>slug = ''s'', name = ''n'', description = ''d'', models = (None :: nat list option)\<rparr> 3
       = Inr None"
  using collection_without_models
    [of "\<lparr>slug = ''s'', name = ''n'', description = ''d'', models = (None :: nat list option)\<rparr>"]
  by simp

text \<open>
  C10. Reading the deprecated \<^verbatim>\<open>id\<close> property of a collection returns exactly its
  \<^verbatim>\<open>slug\<close>.
\<close>

theorem id_is_slug: "fst (id_property c) = slug c"
  by (simp add: id_property_def)

section \<open>Properties of the client configuration\<close>

text \<open>
  C5. The API token is resolved at every call and never cached at construction: the
  explicit value is used when one was given, otherwise the environment's
  \<^verbatim>\<open>REPLICATE_API_TOKEN\<close> as it is at the time of the call; when neither gives a non-empty
  token the call fails (with the \<^verbatim>\<open>ReplicateError\<close> about the missing token, the
  library's error for a failed authentication). The environment at construction plays no
  part, and \<^verbatim>\<open>_headers\<close> fails the same way.
\<close>

theorem api_token_resolved_at_call_time:
  assumes "init fl env0 tok = Inr c"
  shows "api_token_call c env =
           (case tok of
              Some t \<Rightarrow> if t = [] then Inl (ReplicateError No_API_token) else Inr t
            | None \<Rightarrow>
                (case env ''REPLICATE_API_TOKEN'' of
                   Some t \<Rightarrow> if t = [] then Inl (ReplicateError No_API_token) else Inr t
                 | None \<Rightarrow> Inl (ReplicateError No_API_token)))
         \<and> (\<forall>e. api_token_call c env = Inl e \<longrightarrow> headers v c env = Inl e)"
  using init_fields(1)[OF assms]
  by (simp add: api_token_call_def headers_def split: option.splits)

theorem api_token_resolved_at_call_time_witness:
  "init (\<lambda>s. Some s) Map.empty None
     = Inr (fixture_client\<lparr>api_token := None\<rparr>)
   \<and> api_token_call (fixture_client\<lparr>api_token := None\<rparr>) [''REPLICATE_API_TOKEN'' \<mapsto> ''late''] = Inr ''late''
   \<and> api_token_call (fixture_client\<lparr>api_token := None\<rparr>) Map.empty = Inl (ReplicateError No_API_token)
   \<and> headers ''0.0'' (fixture_client\<lparr>api_token := None\<rparr>) Map.empty = Inl (ReplicateError No_API_token)"
proof -
  have i: "init (\<lambda>s. Some s) Map.empty None = Inr (fixture_client\<lparr>api_token := None\<rparr>)"
    by (simp add: init_def fixture_client_def environ_get_def)
  show ?thesis
    using i api_token_resolved_at_call_time[OF i, of "[''REPLICATE_API_TOKEN'' \<mapsto> ''late'']" "''0.0''"]
      api_token_resolved_at_call_time[OF i, of Map.empty "''0.0''"]
    by simp
qed

text \<open>
  C7, as the claim states it, fails: the constructor takes the API token and nothing
  else, so a URL passed to it is taken for the token and the base URL and the poll
  interval stay what the environment (here empty) makes them.
\<close>

theorem base_url_not_a_constructor_argument:
  "init (\<lambda>s. Some s) Map.empty (Some ''https://example.test'')
     = Inr \<lparr>api_token = Some ''https://example.test'',
            base_url = ''https://api.replicate.com'', poll_interval = ''0.5'',
            httpx_transport = 5, read_session = read_retries, write_session = write_retries\<rparr>"
  by (simp add: init_def environ_get_def)

text \<open>
  C7, amended. The API token can be set by the environment variable
  \<^verbatim>\<open>REPLICATE_API_TOKEN\<close> and by the constructor argument \<^verbatim>\<open>api_token\<close>, and a non-empty
  argument wins over the environment. The base URL and the poll interval are set by the
  environment variables \<^verbatim>\<open>REPLICATE_API_BASE_URL\<close> and \<^verbatim>\<open>REPLICATE_POLL_INTERVAL\<close> only,
  read at construction, with the defaults \<^verbatim>\<open>https://api.replicate.com\<close> and \<^verbatim>\<open>0.5\<close>;
  no constructor argument changes them.
\<close>

theorem configuration_sources:
  assumes "init fl env0 tok = Inr c"
  shows "base_url c = (case env0 ''REPLICATE_API_BASE_URL'' of
                         Some u \<Rightarrow> u | None \<Rightarrow> ''https://api.replicate.com'')
       \<and> Some (poll_interval c) = fl (case env0 ''REPLICATE_POLL_INTERVAL'' of
                                        Some p \<Rightarrow> p | None \<Rightarrow> ''0.5'')
       \<and> (\<forall>t. tok = Some t \<and> t \<noteq> [] \<longrightarrow> api_token_call c env = Inr t)
       \<and> (\<forall>t. tok = None \<and> env ''REPLICATE_API_TOKEN'' = Some t \<and> t \<noteq> []
              \<longrightarrow> api_token_call c env = Inr t)"
  using init_fields(1-3)[OF assms]
  by (auto simp: api_token_call_def environ_get_def)

theorem configuration_sources_witness:
  "init (\<lambda>s. Some s) [''REPLICATE_API_BASE_URL'' \<mapsto> ''http://localhost:8000''] (Some ''r8_token'')
     = Inr (fixture_client\<lparr>base_url := ''http://localhost:8000''\<rparr>)
   \<and> base_url (fixture_client\<lparr>base_url := ''http://localhost:8000''\<rparr>) = ''http://localhost:8000''
   \<and> Some (poll_interval (fixture_client\<lparr>base_url := ''http://localhost:8000''\<rparr>)) = Some ''0.5''
   \<and> api_token_call (fixture_client\<lparr>base_url := ''http://localhost:8000''\<rparr>)
        [''REPLICATE_API_TOKEN'' \<mapsto> ''other''] = Inr ''r8_token''"
proof -
  have i: "init (\<lambda>s. Some s) [''REPLICATE_API_BASE_URL'' \<mapsto> ''http://localhost:8000'']
             (Some ''r8_token'') = Inr (fixture_client\<lparr>base_url := ''http://localhost:8000''\<rparr>)"
    by (simp add: init_def fixture_client_def environ_get_def)
  show ?thesis
    using i configuration_sources[OF i, of "[''REPLICATE_API_TOKEN'' \<mapsto> ''other'']"]
    by simp
qed

lemma urlopen_progress:
  "urlopen r m f n sl = (res, n', sl') \<Longrightarrow> n < n'"
proof (induction r m f n sl rule: urlopen.induct)
  case (1 retries meth respond n sl)
  show ?case
  proof (cases "is_retry retries meth (status_code (respond n)) (retry_after (respond n) \<noteq> None)")
    case False
    with "1.prems" show ?thesis by (simp add: urlopen_stop)
  next
    case True
    show ?thesis
    proof (cases "0 < total retries")
      case False
      with True "1.prems" show ?thesis by (simp add: urlopen_exhaust)
    next
      case pos: True
      let ?r = "increment retries (status_code (respond n))"
      have ne: "\<not> is_exhausted ?r" using pos by (simp add: is_exhausted_iff)
      have eq: "urlopen ?r meth respond (Suc n) (sl @ [sleep ?r (respond n)]) = (res, n', sl')"
        using "1.prems" True pos by (simp add: urlopen_again)
      from "1.IH"[OF refl True refl ne eq] show ?thesis by simp
    qed
  qed
qed


lemma request_wire:
  assumes "prepare v env c m kw = Inr kw'" and "kw_follow_redirects kw' = None"
  shows "\<exists>n>0. wire (request v net env c m path kw)
                 = replicate n (session_request m (base_url c @ path) kw')"
proof -
  let ?s = "if m \<in> set [''POST'', ''PUT'', ''DELETE'', ''PATCH''] then write_session c else read_session c"
  let ?rq = "session_request m (base_url c @ path) kw'"
  obtain r n sl where u: "urlopen ?s m (net ?rq) 0 [] = (r, n, sl)"
    by (cases "urlopen ?s m (net ?rq) 0 []") auto
  then have "0 < n" by (rule urlopen_progress)
  moreover have "wire (request v net env c m path kw) = replicate n ?rq"
    using assms u by (cases r) (simp_all add: request_def Let_def)
  ultimately show ?thesis by blast
qed


lemma check_status_outside:
  "status_code r < 400 \<or> 600 \<le> status_code r \<Longrightarrow> check_status r = Inr r"
  by (auto simp: check_status_def)

lemma check_status_detail:
  "400 \<le> status_code r \<Longrightarrow> status_code r < 600 \<Longrightarrow> body r = Some (JObj kvs) \<Longrightarrow>
   map_of (rev kvs) ''detail'' = Some d \<Longrightarrow> check_status r = Inl (ReplicateError (Detail d))"
  by (simp add: check_status_def json_method_def)

lemma check_status_no_detail:
  "400 \<le> status_code r \<Longrightarrow> status_code r < 600 \<Longrightarrow> body r = Some (JObj kvs) \<Longrightarrow>
   map_of (rev kvs) ''detail'' = None \<Longrightarrow>
   check_status r = Inl (ReplicateError (HTTP_error (status_code r) (reason r)))"
  by (simp add: check_status_def json_method_def)

lemma check_status_not_json:
  "400 \<le> status_code r \<Longrightarrow> status_code r < 600 \<Longrightarrow> body r = None \<Longrightarrow>
   check_status r = Inl (ReplicateError (HTTP_error (status_code r) (reason r)))"
  by (simp add: check_status_def json_method_def)

lemma check_status_not_object:
  "400 \<le> status_code r \<Longrightarrow> status_code r < 600 \<Longrightarrow> body r = Some j \<Longrightarrow>
   (\<forall>kvs. j \<noteq> JObj kvs) \<Longrightarrow> check_status r = Inl TypeError"
  by (cases j) (simp_all add: check_status_def json_method_def)

lemma prepare_fixture:
  "\<exists>kw'. prepare v env fixture_client m no_kwargs = Inr kw' \<and> kw_follow_redirects kw' = None"
  using prepare_ok[OF api_token_fixture, of v env m no_kwargs] by (auto simp: no_kwargs_def)


lemma read_retries_fields:
  "total read_retries = 5" "history read_retries = []" "backoff_factor read_retries = 2"
  by (simp_all add: read_retries_def)


lemma request_async_wire:
  assumes "prepare v env c m kw = Inr kw'"
  shows "wire (request_async v net env c m path kw)
           = [client_request m (base_url c @ path) (kw'\<lparr>kw_allow_redirects := None\<rparr>)]"
  using assms by (simp add: request_async_def Let_def)

section \<open>Properties of the error handling\<close>

text \<open>
  C3. A response with a status in [400, 600) whose body is valid JSON but not an object
  (here the empty array) makes \<^verbatim>\<open>_request\<close> raise \<^verbatim>\<open>TypeError\<close>: the subscript
  \<^verbatim>\<open>resp.json()["detail"]\<close> fails on a list, and the handler catches \<^verbatim>\<open>JSONDecodeError\<close>
  and \<^verbatim>\<open>KeyError\<close> only. The claim promises the error built from the status code and
  the reason phrase here.
\<close>

theorem json_array_body_raises_type_error:
  "result (request ''0.0'' (always (answer 404 ''Not Found'' (Some (JArr []))))
             Map.empty fixture_client ''GET'' ''/v1/collections/x'' no_kwargs)
     = Inl TypeError"
proof -
  obtain kw' where p: "prepare ''0.0'' Map.empty fixture_client ''GET'' no_kwargs = Inr kw'"
    and f: "kw_follow_redirects kw' = None"
    using prepare_fixture by blast
  let ?net = "always (answer 404 ''Not Found'' (Some (JArr [])))"
  let ?rq = "session_request ''GET'' (base_url fixture_client @ ''/v1/collections/x'') kw'"
  have "urlopen (read_session fixture_client) ''GET'' (?net ?rq) 0 []
          = (Inr (answer 404 ''Not Found'' (Some (JArr []))), Suc 0, [])"
    by (simp add: urlopen_stop is_retry_def always_def answer_def fixture_client_def
        read_retries_def RETRY_AFTER_STATUS_CODES_def)
  from request_read[where net = "?net" and path = "''/v1/collections/x''", OF p f _ this]
  show ?thesis
    by (simp add: check_status_def json_method_def answer_def)
qed

section \<open>Properties of the redirect defaults\<close>

text \<open>
  C8, as the claim states it, fails for \<^verbatim>\<open>HEAD\<close>: with no \<^verbatim>\<open>allow_redirects\<close> given, the
  blocking path sends a \<^verbatim>\<open>HEAD\<close> request that does not follow redirects.
\<close>

theorem head_does_not_follow_redirects_by_default:
  "map rq_follow_redirects
     (wire (request ''0.0'' (always (answer 200 ''OK'' None)) Map.empty fixture_client
              ''HEAD'' ''/v1/models'' no_kwargs))
     = [False]"
proof -
  let ?net = "always (answer 200 ''OK'' None)"
  obtain kw' where p: "prepare ''0.0'' Map.empty fixture_client ''HEAD'' no_kwargs = Inr kw'"
    and a: "kw_allow_redirects kw' = Some False"
    and f: "kw_follow_redirects kw' = None"
    using prepare_ok[OF api_token_fixture, of "''0.0''" Map.empty "''HEAD''" no_kwargs]
    by (auto simp: no_kwargs_def)
  let ?rq = "session_request ''HEAD'' (base_url fixture_client @ ''/v1/models'') kw'"
  have "urlopen (read_session fixture_client) ''HEAD'' (?net ?rq) 0 []
          = (Inr (answer 200 ''OK'' None), Suc 0, [])"
    by (simp add: urlopen_stop is_retry_not_method retryable_read fixture_client_def always_def)
  from request_read[where net = "?net" and path = "''/v1/models''", OF p f _ this] a
  show ?thesis
    by (simp add: session_request_def)
qed

text \<open>
  C8, amended. For a call whose token resolves and which passes no \<^verbatim>\<open>follow_redirects\<close>
  keyword: in the blocking path a \<^verbatim>\<open>GET\<close> or \<^verbatim>\<open>OPTIONS\<close> request follows redirects by
  default and a \<^verbatim>\<open>HEAD\<close> request by default does not, and an explicit \<^verbatim>\<open>allow_redirects\<close>
  is honoured for all three; in the non-blocking path a \<^verbatim>\<open>GET\<close> or \<^verbatim>\<open>OPTIONS\<close> request
  follows redirects by default, that is when the caller gives no \<^verbatim>\<open>allow_redirects\<close>
  either.
\<close>

theorem redirect_defaults:
  assumes "api_token_call c env = Inr t" and "kw_follow_redirects kw = None"
  shows "(m = ''GET'' \<or> m = ''OPTIONS'' \<longrightarrow>
            wire (request v net env c m path kw) \<noteq> [] \<and>
            (\<forall>rq \<in> set (wire (request v net env c m path kw)).
               rq_follow_redirects rq
                 = (case kw_allow_redirects kw of None \<Rightarrow> True | Some b \<Rightarrow> b)))
       \<and> (m = ''HEAD'' \<longrightarrow>
            wire (request v net env c m path kw) \<noteq> [] \<and>
            (\<forall>rq \<in> set (wire (request v net env c m path kw)).
               rq_follow_redirects rq
                 = (case kw_allow_redirects kw of None \<Rightarrow> False | Some b \<Rightarrow> b)))
       \<and> ((m = ''GET'' \<or> m = ''OPTIONS'') \<and> kw_allow_redirects kw = None \<longrightarrow>
            wire (request_async v net env c m path kw) \<noteq> [] \<and>
            (\<forall>rq \<in> set (wire (request_async v net env c m path kw)). rq_follow_redirects rq))"
proof -
  obtain kw' where p: "prepare v env c m kw = Inr kw'"
    and a: "kw_allow_redirects kw' =
             (case kw_allow_redirects kw of
                Some b \<Rightarrow> Some b
              | None \<Rightarrow> if m = ''GET'' \<or> m = ''OPTIONS'' then Some True
                        else if m = ''HEAD'' then Some False else None)"
    and f: "kw_follow_redirects kw' = None"
    using prepare_ok[OF assms(1), of v m kw] assms(2) by auto
  obtain n where n: "0 < n"
    and w: "wire (request v net env c m path kw)
              = replicate n (session_request m (base_url c @ path) kw')"
    using request_wire[OF p f, of net path] by blast
  have sync: "wire (request v net env c m path kw) \<noteq> []"
    using n w by simp
  have flag: "\<forall>rq \<in> set (wire (request v net env c m path kw)).
                rq_follow_redirects rq
                  = (case kw_allow_redirects kw' of Some b \<Rightarrow> b | None \<Rightarrow> True)"
    using w by (simp add: session_request_def)
  have async: "wire (request_async v net env c m path kw) \<noteq> []
       \<and> (\<forall>rq \<in> set (wire (request_async v net env c m path kw)). rq_follow_redirects rq)"
    using f by (simp add: request_async_wire[OF p] client_request_def)
  show ?thesis
    using sync flag a async by (auto split: option.splits)
qed

theorem redirect_defaults_witness:
  "api_token_call fixture_client Map.empty = Inr ''r8_token''
   \<and> kw_follow_redirects no_kwargs = None
   \<and> wire (request ''0.0'' (always (answer 200 ''OK'' None)) Map.empty fixture_client
             ''GET'' ''/v1/models'' no_kwargs) \<noteq> []
   \<and> list_all rq_follow_redirects
       (wire (request ''0.0'' (always (answer 200 ''OK'' None)) Map.empty fixture_client
                ''GET'' ''/v1/models'' no_kwargs))
   \<and> list_all rq_follow_redirects
       (wire (request_async ''0.0'' (always (answer 200 ''OK'' None)) Map.empty fixture_client
                ''GET'' ''/v1/models'' no_kwargs))"
proof -
  have f: "kw_follow_redirects no_kwargs = None"
    by (simp add: no_kwargs_def)
  from api_token_fixture[of Map.empty] f
    redirect_defaults[OF api_token_fixture f, of "''GET''" "''0.0''"
      "always (answer 200 ''OK'' None)" Map.empty "''/v1/models''"]
  show ?thesis
    by (simp add: no_kwargs_def list_all_iff)
qed

section \<open>Properties of Collections.list\<close>

text \<open>
  C6. \<^verbatim>\<open>list\<close> called with \<^verbatim>\<open>None\<close> fails with \<^verbatim>\<open>ValueError\<close> (the library's validation
  error) and sends nothing; called with no cursor it is the client's \<^verbatim>\<open>GET\<close> request
  for the base listing path \<^verbatim>\<open>/v1/collections\<close>; called with a cursor string it is the
  client's \<^verbatim>\<open>GET\<close> request for that cursor. When the client's token resolves, a request
  is sent in both of these cases, and every transmission is a \<^verbatim>\<open>GET\<close> for the base URL
  followed by that path.
\<close>

theorem list_cursor_dispatch:
  "list_op v net env c None_cursor
     = \<lparr>result = Inl (ValueError ''cursor cannot be None''), wire = [], slept = []\<rparr>
   \<and> list_op v net env c Ellipsis = request v net env c ''GET'' ''/v1/collections'' no_kwargs
   \<and> list_op v net env c (Cursor s) = request v net env c ''GET'' s no_kwargs
   \<and> (\<forall>t. api_token_call c env = Inr t \<longrightarrow>
          wire (list_op v net env c Ellipsis) \<noteq> [] \<and>
          (\<forall>rq \<in> set (wire (list_op v net env c Ellipsis)).
             rq_method rq = ''GET'' \<and> rq_url rq = base_url c @ ''/v1/collections'') \<and>
          wire (list_op v net env c (Cursor s)) \<noteq> [] \<and>
          (\<forall>rq \<in> set (wire (list_op v net env c (Cursor s))).
             rq_method rq = ''GET'' \<and> rq_url rq = base_url c @ s))"
proof -
  have sent: "wire (request v net env c ''GET'' p no_kwargs) \<noteq> [] \<and>
          (\<forall>rq \<in> set (wire (request v net env c ''GET'' p no_kwargs)).
             rq_method rq = ''GET'' \<and> rq_url rq = base_url c @ p)"
    if tk: "api_token_call c env = Inr t" for t p
  proof -
    obtain kw' where pr: "prepare v env c ''GET'' no_kwargs = Inr kw'"
      and f: "kw_follow_redirects kw' = None"
      using prepare_ok[OF tk, of v "''GET''" no_kwargs] by (auto simp: no_kwargs_def)
    obtain n where "0 < n"
      and "wire (request v net env c ''GET'' p no_kwargs)
              = replicate n (session_request ''GET'' (base_url c @ p) kw')"
      using request_wire[OF pr f, of net p] by blast
    then show ?thesis by (simp add: session_request_def)
  qed
  show ?thesis
    using sent by (simp add: list_op_def)
qed

theorem list_cursor_dispatch_witness:
  "api_token_call fixture_client Map.empty = Inr ''r8_token''
   \<and> list_op ''0.0'' (always (answer 200 ''OK'' None)) Map.empty fixture_client None_cursor
       = \<lparr>result = Inl (ValueError ''cursor cannot be None''), wire = [], slept = []\<rparr>
   \<and> list_all (\<lambda>rq. rq_method rq = ''GET'' \<and> rq_url rq = ''https://api.replicate.com/v1/collections'')
       (wire (list_op ''0.0'' (always (answer 200 ''OK'' None)) Map.empty fixture_client Ellipsis))
   \<and> wire (list_op ''0.0'' (always (answer 200 ''OK'' None)) Map.empty fixture_client Ellipsis) \<noteq> []
   \<and> list_all (\<lambda>rq. rq_method rq = ''GET'' \<and> rq_url rq = ''https://api.replicate.com/v1/collections?cursor=abc'')
       (wire (list_op ''0.0'' (always (answer 200 ''OK'' None)) Map.empty fixture_client
                (Cursor ''/v1/collections?cursor=abc'')))"
proof -
  have a: "api_token_call fixture_client Map.empty = Inr ''r8_token''"
    by (rule api_token_fixture)
  have b: "base_url fixture_client = ''https://api.replicate.com''"
    by (simp add: fixture_client_def)
  from a b
    list_cursor_dispatch[of "''0.0''" "always (answer 200 ''OK'' None)" Map.empty fixture_client
      "''/v1/collections?cursor=abc''"]
  show ?thesis
    by (auto simp: list_all_iff)
qed

section \<open>Properties of the retry policies\<close>




text \<open>
  A \<^verbatim>\<open>Retry-After\<close> header takes the place of the backoff: six answers of 503 that ask
  for seven seconds make the policy sleep seven seconds before each retry.
\<close>

lemma retry_after_overrides_backoff:
  "urlopen read_retries ''GET''
     (\<lambda>n. \<lparr>status_code = 503, reason = ''Service Unavailable'', body = None,
            retry_after = Some 7\<rparr>) 0 []
   = (Inl RetryError, 6, [7, 7, 7, 7, 7])"
  using all_retried[OF retryable_read(1) read_retries_fields,
      of "\<lambda>n. \<lparr>status_code = 503, reason = ''Service Unavailable'', body = None,
                 retry_after = Some 7\<rparr>"]
  by (simp add: read_retries_def)




section \<open>Properties of the two request paths\<close>

text \<open>
  C4. The two paths do not produce the same outcome. Against a server that answers a
  \<^verbatim>\<open>GET\<close> first with 500 and then with 200, the blocking path retries and returns the
  second answer after two transmissions, while the non-blocking path sends the request
  once and raises the error of the first answer: its transport is given
  \<^verbatim>\<open>retries=max_retries\<close>, which covers failures to connect only, and nothing retries on a
  status.
\<close>

theorem paths_differ_on_retried_status:
  "result (request ''0.0''
             (first_then (answer 500 ''Internal Server Error'' (Some (JObj [(''detail'', JStr ''boom'')])))
                         (answer 200 ''OK'' (Some (JObj []))))
             Map.empty fixture_client ''GET'' ''/v1/models'' no_kwargs)
     = Inr (answer 200 ''OK'' (Some (JObj [])))
   \<and> length (wire (request ''0.0''
             (first_then (answer 500 ''Internal Server Error'' (Some (JObj [(''detail'', JStr ''boom'')])))
                         (answer 200 ''OK'' (Some (JObj []))))
             Map.empty fixture_client ''GET'' ''/v1/models'' no_kwargs)) = 2
   \<and> result (request_async ''0.0''
             (first_then (answer 500 ''Internal Server Error'' (Some (JObj [(''detail'', JStr ''boom'')])))
                         (answer 200 ''OK'' (Some (JObj []))))
             Map.empty fixture_client ''GET'' ''/v1/models'' no_kwargs)
     = Inl (ReplicateError (Detail (JStr ''boom'')))
   \<and> length (wire (request_async ''0.0''
             (first_then (answer 500 ''Internal Server Error'' (Some (JObj [(''detail'', JStr ''boom'')])))
                         (answer 200 ''OK'' (Some (JObj []))))
             Map.empty fixture_client ''GET'' ''/v1/models'' no_kwargs)) = 1"
proof -
  let ?r1 = "answer 500 ''Internal Server Error'' (Some (JObj [(''detail'', JStr ''boom'')]))"
  let ?r2 = "answer 200 ''OK'' (Some (JObj []))"
  let ?net = "first_then ?r1 ?r2"
  obtain kw' where p: "prepare ''0.0'' Map.empty fixture_client ''GET'' no_kwargs = Inr kw'"
    and f: "kw_follow_redirects kw' = None"
    using prepare_fixture by blast
  let ?rq = "session_request ''GET'' (base_url fixture_client @ ''/v1/models'') kw'"
  have "urlopen (read_session fixture_client) ''GET'' (?net ?rq) 0 [] = (Inr ?r2, 2, [0])"
    by (simp add: urlopen_again urlopen_stop is_retry_def is_method_retryable_def upper_simps
        first_then_def answer_def fixture_client_def read_retries_def sleep_def
        get_backoff_time_def RETRY_AFTER_STATUS_CODES_def)
  from request_read[where net = "?net" and path = "''/v1/models''", OF p f _ this]
  have sync: "result (request ''0.0'' ?net Map.empty fixture_client ''GET'' ''/v1/models'' no_kwargs)
                = Inr ?r2
              \<and> length (wire (request ''0.0'' ?net Map.empty fixture_client ''GET'' ''/v1/models''
                    no_kwargs)) = 2"
    by (simp add: check_status_def answer_def)
  have async: "result (request_async ''0.0'' ?net Map.empty fixture_client ''GET'' ''/v1/models''
                  no_kwargs) = Inl (ReplicateError (Detail (JStr ''boom'')))
              \<and> length (wire (request_async ''0.0'' ?net Map.empty fixture_client ''GET''
                    ''/v1/models'' no_kwargs)) = 1"
    using p by (simp add: request_async_def Let_def first_then_def check_status_async_def
        json_method_def answer_def)
  from sync async show ?thesis by simp
qed

text \<open>
  The two paths differ in the error as well: for a 404 whose body is not JSON the blocking
  path raises the \<^verbatim>\<open>ReplicateError\<close> built from the status code and the reason phrase,
  and the non-blocking path raises \<^verbatim>\<open>AttributeError\<close> while building it.
\<close>

lemma paths_differ_on_fallback_message:
  "result (request ''0.0'' (always (answer 404 ''Not Found'' None)) Map.empty fixture_client
             ''GET'' ''/v1/models/a/b'' no_kwargs)
     = Inl (ReplicateError (HTTP_error 404 ''Not Found''))
   \<and> result (request_async ''0.0'' (always (answer 404 ''Not Found'' None)) Map.empty
               fixture_client ''GET'' ''/v1/models/a/b'' no_kwargs)
     = Inl (AttributeError ''reason'')"
proof -
  let ?net = "always (answer 404 ''Not Found'' None)"
  obtain kw' where p: "prepare ''0.0'' Map.empty fixture_client ''GET'' no_kwargs = Inr kw'"
    and f: "kw_follow_redirects kw' = None"
    using prepare_fixture by blast
  let ?rq = "session_request ''GET'' (base_url fixture_client @ ''/v1/models/a/b'') kw'"
  have "urlopen (read_session fixture_client) ''GET'' (?net ?rq) 0 []
          = (Inr (answer 404 ''Not Found'' None), Suc 0, [])"
    by (simp add: urlopen_stop is_retry_def always_def answer_def fixture_client_def
        read_retries_def RETRY_AFTER_STATUS_CODES_def)
  from request_read[where net = "?net" and path = "''/v1/models/a/b''", OF p f _ this]
  have "result (request ''0.0'' ?net Map.empty fixture_client ''GET'' ''/v1/models/a/b'' no_kwargs)
          = Inl (ReplicateError (HTTP_error 404 ''Not Found''))"
    by (simp add: check_status_def json_method_def answer_def)
  moreover have "result (request_async ''0.0'' ?net Map.empty fixture_client ''GET''
                    ''/v1/models/a/b'' no_kwargs) = Inl (AttributeError ''reason'')"
    using p by (simp add: request_async_def Let_def always_def check_status_async_def
        json_method_def answer_def)
  ultimately show ?thesis by simp
qed

end
